theory Spec2Isabelle
  imports Complex_Main
begin

section \<open>Exponential-cone constraints of cvxpy (cvxpy/constraints/exponential.py)\<close>

subsection \<open>Errors\<close>

text \<open>
  Every exception the module can raise is a value. The two constructors raise
  \<^verbatim>\<open>ValueError(msg)\<close>; \<^verbatim>\<open>np.reshape\<close> raises a \<^verbatim>\<open>ValueError\<close> of its own, kept
  apart here as \<open>ReshapeError\<close> with the size of the array and the requested shape;
  an index out of range raises \<^verbatim>\<open>IndexError\<close>.
\<close>

datatype error = ValueError string | ReshapeError nat "int list" | IndexError

subsection \<open>Arrays\<close>

text \<open>
  A numpy array: its shape and its entries in row-major (C) order. The entries are
  only moved and negated by this module, never computed with.
\<close>

record 'a ndarray =
  nshape :: "nat list"
  ndata :: "'a list"

definition vector :: "'a list \<Rightarrow> 'a ndarray" where
  "vector xs = \<lparr>nshape = [length xs], ndata = xs\<rparr>"

text \<open>
  \<^verbatim>\<open>np.reshape(a, newshape)\<close>: the entries stay in row-major order, at most one
  dimension may be \<open>-1\<close> and is then inferred from the number of entries; the call
  raises when the entries do not fill the new shape exactly.
\<close>

definition np_reshape :: "'a ndarray \<Rightarrow> int list \<Rightarrow> error + 'a ndarray" where
  "np_reshape a newshape =
     (let sz = length (ndata a);
          known = prod_list (filter (\<lambda>d. d \<noteq> - 1) newshape)
      in if (\<exists>d \<in> set newshape. d < - 1) \<or> 1 < count_list newshape (- 1)
         then Inl (ReshapeError sz newshape)
         else if - 1 \<in> set newshape
         then (if known = 0 \<or> int sz mod known \<noteq> 0
               then Inl (ReshapeError sz newshape)
               else Inr \<lparr>nshape = map (\<lambda>d. nat (if d = - 1 then int sz div known else d)) newshape,
                         ndata = ndata a\<rparr>)
         else if known = int sz
         then Inr \<lparr>nshape = map nat newshape, ndata = ndata a\<rparr>
         else Inl (ReshapeError sz newshape))"

text \<open>\<^verbatim>\<open>a[:, j]\<close> on a two-dimensional array: column \<open>j\<close>, as a vector.\<close>

definition np_column :: "'a ndarray \<Rightarrow> nat \<Rightarrow> error + 'a ndarray" where
  "np_column a j =
     (case nshape a of
        [r, c] \<Rightarrow>
          if j < c
          then Inr \<lparr>nshape = [r], ndata = map (\<lambda>i. ndata a ! (i * c + j)) [0..<r]\<rparr>
          else Inl IndexError
      | _ \<Rightarrow> Inl IndexError)"

definition np_negative :: "real ndarray \<Rightarrow> real ndarray" where
  "np_negative a = a\<lparr>ndata := map uminus (ndata a)\<rparr>"

subsection \<open>Expression terms\<close>

text \<open>
  Modelled from the spec: the expression-graph collaborator (the classes Expression,
  Variable, Constant and NegExpression, \<^verbatim>\<open>cast_to_const\<close> and \<^verbatim>\<open>is_affine\<close>) is
  not part of the module. A term is a shaped value that may or may not have a
  numeric value assigned, with an affinity predicate that depends on whether the
  parametrized-discipline scope is active. A variable and a constant are affine;
  negation keeps shape and affinity and negates the value; \<open>Atom\<close> stands for any
  other expression, reduced to the attributes this module reads.
\<close>

record variable =
  var_shape :: "nat list"
  var_value :: "real ndarray option"

datatype expr =
    Var variable
  | Constant "real ndarray"
  | NegExpression expr
  | Atom "nat list" "real ndarray option" bool bool

fun expr_shape :: "expr \<Rightarrow> nat list" where
  "expr_shape (Var v) = var_shape v"
| "expr_shape (Constant a) = nshape a"
| "expr_shape (NegExpression e) = expr_shape e"
| "expr_shape (Atom s v a p) = s"

fun expr_value :: "expr \<Rightarrow> real ndarray option" where
  "expr_value (Var v) = var_value v"
| "expr_value (Constant a) = Some a"
| "expr_value (NegExpression e) = map_option np_negative (expr_value e)"
| "expr_value (Atom s v a p) = v"

text \<open>\<^verbatim>\<open>Expression.size\<close>: the number of scalar entries, the product of the shape.\<close>

definition expr_size :: "expr \<Rightarrow> nat" where
  "expr_size e = prod_list (expr_shape e)"

text \<open>The first argument says whether the parametrized-discipline scope is active.\<close>

fun is_affine :: "bool \<Rightarrow> expr \<Rightarrow> bool" where
  "is_affine dpp (Var v) = True"
| "is_affine dpp (Constant a) = True"
| "is_affine dpp (NegExpression e) = is_affine dpp e"
| "is_affine dpp (Atom s v a p) = (if dpp then p else a)"

text \<open>
  A raw operand is an expression already or a numeric array; \<^verbatim>\<open>cast_to_const\<close>
  leaves the first alone and wraps the second in a constant.
\<close>

datatype operand = Expr expr | Raw "real ndarray"

fun cast_to_const :: "operand \<Rightarrow> expr" where
  "cast_to_const (Expr e) = e"
| "cast_to_const (Raw a) = Constant a"

definition Variable :: "nat list \<Rightarrow> expr" where
  "Variable s = Var \<lparr>var_shape = s, var_value = None\<rparr>"

subsection \<open>Rendering shapes in the error message\<close>

text \<open>Python's \<^verbatim>\<open>str\<close> of a non-negative integer and of a tuple.\<close>

definition digit_char :: "nat \<Rightarrow> char" where
  "digit_char d = ''0123456789'' ! d"

fun str_nat :: "nat \<Rightarrow> string" where
  "str_nat n = (if n < 10 then [digit_char n] else str_nat (n div 10) @ [digit_char (n mod 10)])"

declare str_nat.simps [simp del]

fun join :: "string \<Rightarrow> string list \<Rightarrow> string" where
  "join sep [] = []"
| "join sep [a] = a"
| "join sep (a # b # r) = a @ sep @ join sep (b # r)"

definition str_tuple :: "string list \<Rightarrow> string" where
  "str_tuple items =
     (case items of
        [] \<Rightarrow> ''()''
      | [a] \<Rightarrow> ''('' @ a @ '',)''
      | _ \<Rightarrow> ''('' @ join '', '' items @ '')'')"

text \<open>What a tuple's rendering holds between its parentheses.\<close>

definition tuple_body :: "string list \<Rightarrow> string" where
  "tuple_body items = (case items of [] \<Rightarrow> [] | [a] \<Rightarrow> a @ '','' | _ \<Rightarrow> join '', '' items)"

definition str_shape :: "nat list \<Rightarrow> string" where
  "str_shape s = str_tuple (map str_nat s)"

definition shape_msg :: "nat list \<Rightarrow> nat list \<Rightarrow> nat list \<Rightarrow> string" where
  "shape_msg xs ys zs =
     ''All arguments must have the same shapes. Provided arguments have'' @
     ''shapes '' @ str_tuple [str_shape xs, str_shape ys, str_shape zs]"

subsection \<open>The constraint base class\<close>

text \<open>
  Modelled from the spec: the base class Constraint is not part of the module. Its
  constructor keeps the operand list and creates one dual variable per operand, of
  the operand's shape and with no value. The identifier is kept as it is given.
\<close>

record Constraint =
  args :: "expr list"
  dual_variables :: "variable list"
  constr_id :: "nat option"

definition new_dual_variables :: "expr list \<Rightarrow> variable list" where
  "new_dual_variables as = map (\<lambda>a. \<lparr>var_shape = expr_shape a, var_value = None\<rparr>) as"

text \<open>\<^verbatim>\<open>Leaf.save_value\<close>: the value is stored as it is.\<close>

definition save_value :: "real ndarray \<Rightarrow> variable \<Rightarrow> variable" where
  "save_value val v = v\<lparr>var_value := Some val\<rparr>"

text \<open>
  Modelled from the spec: \<^verbatim>\<open>scopes.dpp_scope()\<close> is not part of the module. It is
  the restricted analysis scope: the body runs with the scope active, and the
  previous state of the scope is restored afterwards. The state of the scope is
  passed in and returned.
\<close>

definition dpp_scope :: "(bool \<Rightarrow> 'a) \<Rightarrow> bool \<Rightarrow> 'a \<times> bool" where
  "dpp_scope body active = (let prev_state = active in (body True, prev_state))"

text \<open>
  Writing into a dual variable: \<^verbatim>\<open>self.dual_variables[i].save_value(val)\<close>. The
  constraint is returned with the slot written; an index past the list raises.
\<close>

definition save_dual ::
  "nat \<Rightarrow> real ndarray \<Rightarrow> 'a Constraint_scheme \<Rightarrow> error + 'a Constraint_scheme" where
  "save_dual i val self =
     (if i < length (dual_variables self)
      then Inr (self\<lparr>dual_variables :=
                  (dual_variables self)[i := save_value val (dual_variables self ! i)]\<rparr>)
      else Inl IndexError)"

text \<open>
  Modelled from the spec: the problem and solve collaborator is not part of the
  module. The projection problem is kept as data: minimise the Euclidean norm of
  the stacked fresh variables minus the stacked operand values, subject to the
  constraints. The solve itself is a parameter of the residual.
\<close>

datatype objective = Minimize_norm2_diff "expr list" "real ndarray list"

record 'c Problem =
  objective :: objective
  constraints :: "'c list"

subsection \<open>ExpCone\<close>

record ExpCone = Constraint +
  ec_x :: expr
  ec_y :: expr
  ec_z :: expr

definition ExpCone_init :: "operand \<Rightarrow> operand \<Rightarrow> operand \<Rightarrow> nat option \<Rightarrow> error + ExpCone" where
  "ExpCone_init x y z cid =
     (let sx = cast_to_const x; sy = cast_to_const y; sz = cast_to_const z;
          xs = expr_shape sx; ys = expr_shape sy; zs = expr_shape sz
      in if xs \<noteq> ys \<or> xs \<noteq> zs
         then Inl (ValueError (shape_msg xs ys zs))
         else Inr \<lparr>args = [sx, sy, sz],
                   dual_variables = new_dual_variables [sx, sy, sz],
                   constr_id = cid,
                   ec_x = sx, ec_y = sy, ec_z = sz\<rparr>)"

definition ExpCone_num_cones :: "ExpCone \<Rightarrow> nat" where
  "ExpCone_num_cones self = expr_size (ec_x self)"

definition ExpCone_size :: "ExpCone \<Rightarrow> nat" where
  "ExpCone_size self = 3 * ExpCone_num_cones self"

definition ExpCone_cone_sizes :: "ExpCone \<Rightarrow> nat list" where
  "ExpCone_cone_sizes self = replicate (ExpCone_num_cones self) 3"

definition ExpCone_shape :: "ExpCone \<Rightarrow> nat list" where
  "ExpCone_shape self = [3] @ expr_shape (ec_x self)"

definition ExpCone_is_dcp :: "ExpCone \<Rightarrow> bool \<Rightarrow> bool \<Rightarrow> bool \<times> bool" where
  "ExpCone_is_dcp self dpp active =
     (if dpp
      then dpp_scope (\<lambda>a. list_all (is_affine a) (args self)) active
      else (list_all (is_affine active) (args self), active))"

definition ExpCone_is_dgp :: "ExpCone \<Rightarrow> bool \<Rightarrow> bool" where
  "ExpCone_is_dgp self dpp = False"

definition ExpCone_is_dqcp :: "ExpCone \<Rightarrow> bool \<Rightarrow> bool \<times> bool" where
  "ExpCone_is_dqcp self active = ExpCone_is_dcp self False active"

text \<open>
  \<open>save_dual_value\<close> returns nothing and writes into the constraint, so the model
  returns the outcome (an error or nothing) together with the constraint as it is
  when the method returns or raises.
\<close>

definition ExpCone_save_dual_value :: "real ndarray \<Rightarrow> ExpCone \<Rightarrow> (error + unit) \<times> ExpCone" where
  "ExpCone_save_dual_value val self =
     (case np_reshape val [- 1, 3] of Inl e \<Rightarrow> (Inl e, self) | Inr v \<Rightarrow>
     (case np_column v 0 of Inl e \<Rightarrow> (Inl e, self) | Inr c0 \<Rightarrow>
     (case np_reshape c0 (map int (expr_shape (ec_x self))) of Inl e \<Rightarrow> (Inl e, self) | Inr dv0 \<Rightarrow>
     (case np_column v 1 of Inl e \<Rightarrow> (Inl e, self) | Inr c1 \<Rightarrow>
     (case np_reshape c1 (map int (expr_shape (ec_y self))) of Inl e \<Rightarrow> (Inl e, self) | Inr dv1 \<Rightarrow>
     (case np_column v 2 of Inl e \<Rightarrow> (Inl e, self) | Inr c2 \<Rightarrow>
     (case np_reshape c2 (map int (expr_shape (ec_z self))) of Inl e \<Rightarrow> (Inl e, self) | Inr dv2 \<Rightarrow>
     (case save_dual 0 dv0 self of Inl e \<Rightarrow> (Inl e, self) | Inr s1 \<Rightarrow>
     (case save_dual 1 dv1 s1 of Inl e \<Rightarrow> (Inl e, s1) | Inr s2 \<Rightarrow>
     (case save_dual 2 dv2 s2 of Inl e \<Rightarrow> (Inl e, s2) | Inr s3 \<Rightarrow>
        (Inr (), s3)))))))))))"

text \<open>
  The residual: \<open>None\<close> when an operand has no value, else the value of the nested
  projection solve, which may raise.
\<close>

definition ExpCone_residual ::
  "(ExpCone Problem \<Rightarrow> error + real) \<Rightarrow> ExpCone \<Rightarrow> error + real option" where
  "ExpCone_residual solve self =
     (if expr_value (ec_x self) = None \<or> expr_value (ec_y self) = None
         \<or> expr_value (ec_z self) = None
      then Inr None
      else
        (let x = Variable (expr_shape (ec_x self));
             y = Variable (expr_shape (ec_y self));
             z = Variable (expr_shape (ec_z self))
         in case ExpCone_init (Expr x) (Expr y) (Expr z) None of
              Inl e \<Rightarrow> Inl e
            | Inr con \<Rightarrow>
                (case solve \<lparr>objective =
                               Minimize_norm2_diff [x, y, z]
                                 [the (expr_value (ec_x self)), the (expr_value (ec_y self)),
                                  the (expr_value (ec_z self))],
                             constraints = [con]\<rparr> of
                   Inl e \<Rightarrow> Inl e
                 | Inr r \<Rightarrow> Inr (Some r))))"

subsection \<open>RelEntrQuad\<close>

record RelEntrQuad = Constraint +
  rq_x :: expr
  rq_y :: expr
  rq_z :: expr
  rq_m :: int
  rq_k :: int

definition RelEntrQuad_init ::
  "operand \<Rightarrow> operand \<Rightarrow> operand \<Rightarrow> int \<Rightarrow> int \<Rightarrow> nat option \<Rightarrow> error + RelEntrQuad" where
  "RelEntrQuad_init x y z m k cid =
     (let sx = cast_to_const x; sy = cast_to_const y; sz = cast_to_const z;
          xs = expr_shape sx; ys = expr_shape sy; zs = expr_shape sz
      in if xs \<noteq> ys \<or> xs \<noteq> zs
         then Inl (ValueError (shape_msg xs ys zs))
         else Inr \<lparr>args = [sx, sy, sz],
                   dual_variables = new_dual_variables [sx, sy, sz],
                   constr_id = cid,
                   rq_x = sx, rq_y = sy, rq_z = sz, rq_m = m, rq_k = k\<rparr>)"

definition RelEntrQuad_num_cones :: "RelEntrQuad \<Rightarrow> nat" where
  "RelEntrQuad_num_cones self = expr_size (rq_x self)"

definition RelEntrQuad_size :: "RelEntrQuad \<Rightarrow> nat" where
  "RelEntrQuad_size self = 3 * RelEntrQuad_num_cones self"

definition RelEntrQuad_cone_sizes :: "RelEntrQuad \<Rightarrow> nat list" where
  "RelEntrQuad_cone_sizes self = replicate (RelEntrQuad_num_cones self) 3"

definition RelEntrQuad_shape :: "RelEntrQuad \<Rightarrow> nat list" where
  "RelEntrQuad_shape self = [3] @ expr_shape (rq_x self)"

definition RelEntrQuad_get_data :: "RelEntrQuad \<Rightarrow> int list" where
  "RelEntrQuad_get_data self = [rq_m self, rq_k self]"

definition RelEntrQuad_is_dcp :: "RelEntrQuad \<Rightarrow> bool \<Rightarrow> bool \<Rightarrow> bool \<times> bool" where
  "RelEntrQuad_is_dcp self dpp active =
     (if dpp
      then dpp_scope (\<lambda>a. list_all (is_affine a) (args self)) active
      else (list_all (is_affine active) (args self), active))"

definition RelEntrQuad_is_dgp :: "RelEntrQuad \<Rightarrow> bool \<Rightarrow> bool" where
  "RelEntrQuad_is_dgp self dpp = False"

definition RelEntrQuad_is_dqcp :: "RelEntrQuad \<Rightarrow> bool \<Rightarrow> bool \<times> bool" where
  "RelEntrQuad_is_dqcp self active = RelEntrQuad_is_dcp self False active"

definition RelEntrQuad_save_dual_value ::
  "real ndarray \<Rightarrow> RelEntrQuad \<Rightarrow> (error + unit) \<times> RelEntrQuad" where
  "RelEntrQuad_save_dual_value val self = (Inr (), self)"

definition RelEntrQuad_residual ::
  "(RelEntrQuad Problem \<Rightarrow> error + real) \<Rightarrow> RelEntrQuad \<Rightarrow> error + real option" where
  "RelEntrQuad_residual solve self =
     (if expr_value (rq_x self) = None \<or> expr_value (rq_y self) = None
         \<or> expr_value (rq_z self) = None
      then Inr None
      else
        (let x = Variable (expr_shape (rq_x self));
             y = Variable (expr_shape (rq_y self));
             z = Variable (expr_shape (rq_z self))
         in case RelEntrQuad_init (Expr x) (Expr y) (Expr z) (rq_m self) (rq_k self) None of
              Inl e \<Rightarrow> Inl e
            | Inr con \<Rightarrow>
                (case solve \<lparr>objective =
                               Minimize_norm2_diff [x, y, z]
                                 [the (expr_value (rq_x self)), the (expr_value (rq_y self)),
                                  the (expr_value (rq_z self))],
                             constraints = [con]\<rparr> of
                   Inl e \<Rightarrow> Inl e
                 | Inr r \<Rightarrow> Inr (Some r))))"

text \<open>
  \<open>as_quad_approx\<close> of an ExpCone: \<^verbatim>\<open>RelEntrQuad(self.y, self.z, -self.x, m, k)\<close>,
  where unary minus on an expression builds a NegExpression.
\<close>

definition ExpCone_as_quad_approx :: "ExpCone \<Rightarrow> int \<Rightarrow> int \<Rightarrow> error + RelEntrQuad" where
  "ExpCone_as_quad_approx self m k =
     RelEntrQuad_init (Expr (ec_y self)) (Expr (ec_z self)) (Expr (NegExpression (ec_x self)))
       m k None"

subsection \<open>The flat dual vector\<close>

text \<open>
  The layout the solve step hands back: one triple per cone, cone after cone.
\<close>

fun interleave3 :: "'a list \<Rightarrow> 'a list \<Rightarrow> 'a list \<Rightarrow> 'a list" where
  "interleave3 (a # as) (b # bs) (c # cs) = a # b # c # interleave3 as bs cs"
| "interleave3 as bs cs = []"

section \<open>Properties\<close>

subsection \<open>What the constructors return\<close>

lemma ExpCone_init_same_shape:
  assumes "expr_shape (cast_to_const x) = S" "expr_shape (cast_to_const y) = S"
    "expr_shape (cast_to_const z) = S"
  shows "ExpCone_init x y z cid =
    Inr \<lparr>args = [cast_to_const x, cast_to_const y, cast_to_const z],
         dual_variables = [\<lparr>var_shape = S, var_value = None\<rparr>, \<lparr>var_shape = S, var_value = None\<rparr>,
                           \<lparr>var_shape = S, var_value = None\<rparr>],
         constr_id = cid,
         ec_x = cast_to_const x, ec_y = cast_to_const y, ec_z = cast_to_const z\<rparr>"
  using assms by (simp add: ExpCone_init_def new_dual_variables_def Let_def)

lemma RelEntrQuad_init_same_shape:
  assumes "expr_shape (cast_to_const x) = S" "expr_shape (cast_to_const y) = S"
    "expr_shape (cast_to_const z) = S"
  shows "RelEntrQuad_init x y z m k cid =
    Inr \<lparr>args = [cast_to_const x, cast_to_const y, cast_to_const z],
         dual_variables = [\<lparr>var_shape = S, var_value = None\<rparr>, \<lparr>var_shape = S, var_value = None\<rparr>,
                           \<lparr>var_shape = S, var_value = None\<rparr>],
         constr_id = cid,
         rq_x = cast_to_const x, rq_y = cast_to_const y, rq_z = cast_to_const z,
         rq_m = m, rq_k = k\<rparr>"
  using assms by (simp add: RelEntrQuad_init_def new_dual_variables_def Let_def)

lemma ExpCone_init_Inr:
  assumes "ExpCone_init x y z cid = Inr c"
  shows "expr_shape (cast_to_const y) = expr_shape (cast_to_const x)"
    and "expr_shape (cast_to_const z) = expr_shape (cast_to_const x)"
    and "c = \<lparr>args = [cast_to_const x, cast_to_const y, cast_to_const z],
              dual_variables =
                new_dual_variables [cast_to_const x, cast_to_const y, cast_to_const z],
              constr_id = cid,
              ec_x = cast_to_const x, ec_y = cast_to_const y, ec_z = cast_to_const z\<rparr>"
  using assms by (auto simp: ExpCone_init_def Let_def split: if_splits)

lemma RelEntrQuad_init_Inr:
  assumes "RelEntrQuad_init x y z m k cid = Inr q"
  shows "expr_shape (cast_to_const y) = expr_shape (cast_to_const x)"
    and "expr_shape (cast_to_const z) = expr_shape (cast_to_const x)"
    and "q = \<lparr>args = [cast_to_const x, cast_to_const y, cast_to_const z],
              dual_variables =
                new_dual_variables [cast_to_const x, cast_to_const y, cast_to_const z],
              constr_id = cid,
              rq_x = cast_to_const x, rq_y = cast_to_const y, rq_z = cast_to_const z,
              rq_m = m, rq_k = k\<rparr>"
  using assms by (auto simp: RelEntrQuad_init_def Let_def split: if_splits)

lemma init_mismatch:
  assumes "\<not> (expr_shape (cast_to_const x) = expr_shape (cast_to_const y)
            \<and> expr_shape (cast_to_const x) = expr_shape (cast_to_const z))"
  shows "ExpCone_init x y z cid =
           Inl (ValueError (shape_msg (expr_shape (cast_to_const x)) (expr_shape (cast_to_const y))
                  (expr_shape (cast_to_const z))))"
    and "RelEntrQuad_init x y z m k cid =
           Inl (ValueError (shape_msg (expr_shape (cast_to_const x)) (expr_shape (cast_to_const y))
                  (expr_shape (cast_to_const z))))"
  using assms by (auto simp: ExpCone_init_def RelEntrQuad_init_def Let_def)

subsection \<open>Bookkeeping\<close>

lemma sum_list_replicate_3: "sum_list (replicate n (3::nat)) = 3 * n"
  by (induction n) simp_all

text \<open>
  Claim C1. A cone of either variant built over three operands of common shape \<open>S\<close>,
  with \<open>n = prod_list S\<close> scalar entries, has \<open>n\<close> elementwise cones, size \<open>3 * n\<close>,
  shape \<open>3 # S\<close> and \<open>n\<close> cone sizes that are all 3; so its size is the sum of its
  cone sizes and three times its number of cones.
\<close>

theorem cone_bookkeeping:
  assumes "expr_shape (cast_to_const x) = S" "expr_shape (cast_to_const y) = S"
    "expr_shape (cast_to_const z) = S"
  shows "(\<exists>c. ExpCone_init x y z cid = Inr c
            \<and> ExpCone_num_cones c = prod_list S
            \<and> ExpCone_size c = 3 * prod_list S
            \<and> ExpCone_shape c = 3 # S
            \<and> ExpCone_cone_sizes c = replicate (prod_list S) 3
            \<and> ExpCone_size c = sum_list (ExpCone_cone_sizes c)
            \<and> sum_list (ExpCone_cone_sizes c) = 3 * ExpCone_num_cones c)
       \<and> (\<exists>q. RelEntrQuad_init x y z m k cid = Inr q
            \<and> RelEntrQuad_num_cones q = prod_list S
            \<and> RelEntrQuad_size q = 3 * prod_list S
            \<and> RelEntrQuad_shape q = 3 # S
            \<and> RelEntrQuad_cone_sizes q = replicate (prod_list S) 3
            \<and> RelEntrQuad_size q = sum_list (RelEntrQuad_cone_sizes q)
            \<and> sum_list (RelEntrQuad_cone_sizes q) = 3 * RelEntrQuad_num_cones q)"
proof (rule conjI)
  show "\<exists>c. ExpCone_init x y z cid = Inr c
            \<and> ExpCone_num_cones c = prod_list S
            \<and> ExpCone_size c = 3 * prod_list S
            \<and> ExpCone_shape c = 3 # S
            \<and> ExpCone_cone_sizes c = replicate (prod_list S) 3
            \<and> ExpCone_size c = sum_list (ExpCone_cone_sizes c)
            \<and> sum_list (ExpCone_cone_sizes c) = 3 * ExpCone_num_cones c"
    using assms
    by (simp add: ExpCone_init_same_shape [OF assms] ExpCone_num_cones_def ExpCone_size_def
        ExpCone_shape_def ExpCone_cone_sizes_def expr_size_def sum_list_replicate_3)
next
  show "\<exists>q. RelEntrQuad_init x y z m k cid = Inr q
            \<and> RelEntrQuad_num_cones q = prod_list S
            \<and> RelEntrQuad_size q = 3 * prod_list S
            \<and> RelEntrQuad_shape q = 3 # S
            \<and> RelEntrQuad_cone_sizes q = replicate (prod_list S) 3
            \<and> RelEntrQuad_size q = sum_list (RelEntrQuad_cone_sizes q)
            \<and> sum_list (RelEntrQuad_cone_sizes q) = 3 * RelEntrQuad_num_cones q"
    using assms
    by (simp add: RelEntrQuad_init_same_shape [OF assms] RelEntrQuad_num_cones_def
        RelEntrQuad_size_def RelEntrQuad_shape_def RelEntrQuad_cone_sizes_def expr_size_def
        sum_list_replicate_3)
qed

theorem cone_bookkeeping_witness:
  "(\<exists>c. ExpCone_init (Expr (Variable [2, 3])) (Raw \<lparr>nshape = [2, 3], ndata = [1, 2, 3, 4, 5, 6]\<rparr>)
            (Expr (NegExpression (Variable [2, 3]))) None = Inr c
       \<and> ExpCone_num_cones c = 6 \<and> ExpCone_size c = 18 \<and> ExpCone_shape c = [3, 2, 3]
       \<and> ExpCone_cone_sizes c = [3, 3, 3, 3, 3, 3]
       \<and> ExpCone_size c = sum_list (ExpCone_cone_sizes c)
       \<and> sum_list (ExpCone_cone_sizes c) = 3 * ExpCone_num_cones c)
   \<and> (\<exists>q. RelEntrQuad_init (Expr (Variable [2, 3])) (Raw \<lparr>nshape = [2, 3], ndata = [1, 2, 3, 4, 5, 6]\<rparr>)
            (Expr (NegExpression (Variable [2, 3]))) 4 5 None = Inr q
       \<and> RelEntrQuad_num_cones q = 6 \<and> RelEntrQuad_size q = 18 \<and> RelEntrQuad_shape q = [3, 2, 3]
       \<and> RelEntrQuad_cone_sizes q = [3, 3, 3, 3, 3, 3]
       \<and> RelEntrQuad_size q = sum_list (RelEntrQuad_cone_sizes q)
       \<and> sum_list (RelEntrQuad_cone_sizes q) = 3 * RelEntrQuad_num_cones q)"
  using cone_bookkeeping [of "Expr (Variable [2, 3])" "[2, 3]"
      "Raw \<lparr>nshape = [2, 3], ndata = [1, 2, 3, 4, 5, 6]\<rparr>" "Expr (NegExpression (Variable [2, 3]))"
      None 4 5]
  by (simp add: Variable_def eval_nat_numeral)

subsection \<open>The shapes can be read back from the error message\<close>

lemma str_tuple_body: "str_tuple items = ''('' @ tuple_body items @ '')''"
  by (simp add: str_tuple_def tuple_body_def split: list.splits)

lemma digit_less_10:
  assumes "(d::nat) < 10"
  shows "d = 0 \<or> d = 1 \<or> d = 2 \<or> d = 3 \<or> d = 4 \<or> d = 5 \<or> d = 6 \<or> d = 7 \<or> d = 8 \<or> d = 9"
  using assms by arith

lemma digit_char_evals:
  "digit_char 0 = CHR ''0''" "digit_char 1 = CHR ''1''" "digit_char (Suc 0) = CHR ''1''"
  "digit_char 2 = CHR ''2''" "digit_char 3 = CHR ''3''" "digit_char 4 = CHR ''4''"
  "digit_char 5 = CHR ''5''" "digit_char 6 = CHR ''6''" "digit_char 7 = CHR ''7''"
  "digit_char 8 = CHR ''8''" "digit_char 9 = CHR ''9''"
  by (simp_all add: digit_char_def)

lemma digit_char_inj:
  assumes "d < 10" "e < 10" "digit_char d = digit_char e"
  shows "d = e"
  using digit_less_10 [OF assms(1)] digit_less_10 [OF assms(2)] assms(3)
  by (auto simp: digit_char_evals)

lemma digit_char_plain:
  assumes "d < 10"
  shows "digit_char d \<notin> {CHR '','', CHR '' '', CHR ''('', CHR '')''}"
  using digit_less_10 [OF assms] by (auto simp: digit_char_evals)

lemma str_nat_plain: "set (str_nat n) \<inter> {CHR '','', CHR '' '', CHR ''('', CHR '')''} = {}"
proof (induction n rule: str_nat.induct)
  case (1 n)
  show ?case
  proof (cases "n < 10")
    case True
    then show ?thesis using digit_char_plain [of n] by (subst str_nat.simps) simp
  next
    case False
    have "n mod 10 < 10" by simp
    from digit_char_plain [OF this] 1 [OF False] False show ?thesis
      by (subst str_nat.simps) auto
  qed
qed

lemma str_nat_nonempty: "str_nat n \<noteq> []"
  by (subst str_nat.simps) simp

lemma str_nat_inj: "str_nat a = str_nat b \<Longrightarrow> a = b"
proof (induction a arbitrary: b rule: str_nat.induct)
  case (1 n)
  show ?case
  proof (cases "n < 10")
    case True
    note n = this
    show ?thesis
    proof (cases "b < 10")
      case True
      with n "1.prems" show ?thesis
        by (simp add: str_nat.simps [of n] str_nat.simps [of b] digit_char_inj)
    next
      case False
      with n "1.prems" str_nat_nonempty [of "b div 10"] show ?thesis
        by (simp add: str_nat.simps [of n] str_nat.simps [of b])
    qed
  next
    case False
    note n = this
    show ?thesis
    proof (cases "b < 10")
      case True
      with n "1.prems" str_nat_nonempty [of "n div 10"] show ?thesis
        by (simp add: str_nat.simps [of n] str_nat.simps [of b])
    next
      case False
      with n "1.prems" have eq: "str_nat (n div 10) = str_nat (b div 10)"
        and dg: "digit_char (n mod 10) = digit_char (b mod 10)"
        by (simp_all add: str_nat.simps [of n] str_nat.simps [of b])
      from "1.IH" [OF n eq] have "n div 10 = b div 10" .
      moreover from dg have "n mod 10 = b mod 10" by (intro digit_char_inj) simp_all
      ultimately show ?thesis by (metis div_mult_mod_eq)
    qed
  qed
qed

lemma split_at_first:
  "c \<notin> set a \<Longrightarrow> c \<notin> set a' \<Longrightarrow> a @ c # r = a' @ c # r' \<Longrightarrow> a = a' \<and> r = r'"
proof (induction a arbitrary: a')
  case Nil
  then show ?case by (cases a') auto
next
  case (Cons x a)
  then show ?case by (cases a') auto
qed

lemma join_inj:
  assumes "\<forall>s \<in> set xs. CHR '','' \<notin> set s" "\<forall>s \<in> set ys. CHR '','' \<notin> set s"
    and "xs \<noteq> []" "ys \<noteq> []" "join '', '' xs = join '', '' ys"
  shows "xs = ys"
  using assms
proof (induction "'', ''" xs arbitrary: ys rule: join.induct)
  case 1
  then show ?case by simp
next
  case (2 a)
  show ?case
  proof (cases ys rule: remdups_adj.cases)
    case 1
    with 2 show ?thesis by simp
  next
    case (2 a')
    with "2.prems" show ?thesis by simp
  next
    case (3 a' b' r')
    with "2.prems" have "a = a' @ CHR '','' # CHR '' '' # join '', '' (b' # r')" by simp
    with "2.prems" show ?thesis by auto
  qed
next
  case (3 a b r)
  show ?case
  proof (cases ys rule: remdups_adj.cases)
    case 1
    with 3 show ?thesis by simp
  next
    case (2 a')
    with "3.prems" have "a' = a @ CHR '','' # CHR '' '' # join '', '' (b # r)" by simp
    with "3.prems" 2 show ?thesis by auto
  next
    case (3 a' b' r')
    note ys = this
    with "3.prems" have e: "a @ CHR '','' # (CHR '' '' # join '', '' (b # r))
          = a' @ CHR '','' # (CHR '' '' # join '', '' (b' # r'))" by simp
    have na: "CHR '','' \<notin> set a" and na': "CHR '','' \<notin> set a'"
      using "3.prems" ys by simp_all
    from split_at_first [OF na na' e]
    have h: "a = a'" and t: "join '', '' (b # r) = join '', '' (b' # r')" by simp_all
    have "b # r = b' # r'"
      using "3.prems" ys by (intro "3.hyps" t) simp_all
    with h ys show ?thesis by simp
  qed
qed

lemma set_join: "set (join sep xs) \<subseteq> set sep \<union> \<Union> (set ` set xs)"
  by (induction sep xs rule: join.induct) auto

lemma tuple_body_no_paren:
  assumes "\<forall>s \<in> set items. CHR '')'' \<notin> set s"
  shows "CHR '')'' \<notin> set (tuple_body items)"
proof (cases items rule: remdups_adj.cases)
  case 1
  then show ?thesis by (simp add: tuple_body_def)
next
  case (2 a)
  with assms show ?thesis by (simp add: tuple_body_def)
next
  case (3 a b r)
  have "set (join '', '' items) \<subseteq> set '', '' \<union> \<Union> (set ` set items)" by (rule set_join)
  with assms have "CHR '')'' \<notin> set (join '', '' items)" by auto
  with 3 show ?thesis by (simp add: tuple_body_def)
qed

lemma tuple_body_inj:
  assumes xs: "\<forall>s \<in> set xs. CHR '','' \<notin> set s" and ys: "\<forall>s \<in> set ys. CHR '','' \<notin> set s"
    and eq: "tuple_body xs = tuple_body ys"
  shows "xs = ys"
proof -
  consider "xs = []" | a where "xs = [a]" | a b r where "xs = a # b # r"
    by (cases xs rule: remdups_adj.cases) auto
  then show ?thesis
  proof cases
    case 1
    with eq show ?thesis
      by (cases ys rule: remdups_adj.cases) (simp_all add: tuple_body_def)
  next
    case (2 a)
    show ?thesis
    proof (cases ys rule: remdups_adj.cases)
      case 1
      with 2 eq show ?thesis by (simp add: tuple_body_def)
    next
      case (2 a')
      with \<open>xs = [a]\<close> eq show ?thesis by (simp add: tuple_body_def)
    next
      case (3 a' b' r')
      with \<open>xs = [a]\<close> eq
      have e: "a @ CHR '','' # [] = a' @ CHR '','' # (CHR '' '' # join '', '' (b' # r'))"
        by (simp add: tuple_body_def)
      have "CHR '','' \<notin> set a" "CHR '','' \<notin> set a'"
        using xs ys \<open>xs = [a]\<close> 3 by simp_all
      from split_at_first [OF this e] show ?thesis by simp
    qed
  next
    case (3 a b r)
    show ?thesis
    proof (cases ys rule: remdups_adj.cases)
      case 1
      with 3 eq show ?thesis by (simp add: tuple_body_def)
    next
      case (2 a')
      with \<open>xs = a # b # r\<close> eq
      have e: "a' @ CHR '','' # [] = a @ CHR '','' # (CHR '' '' # join '', '' (b # r))"
        by (simp add: tuple_body_def)
      have "CHR '','' \<notin> set a'" "CHR '','' \<notin> set a"
        using xs ys \<open>xs = a # b # r\<close> 2 by simp_all
      from split_at_first [OF this e] show ?thesis by simp
    next
      case (3 a' b' r')
      with \<open>xs = a # b # r\<close> eq have "join '', '' xs = join '', '' ys"
        by (simp add: tuple_body_def)
      with xs ys \<open>xs = a # b # r\<close> 3 show ?thesis
        by (intro join_inj) simp_all
    qed
  qed
qed

lemma str_shape_body: "str_shape s = CHR ''('' # tuple_body (map str_nat s) @ '')''"
  by (simp add: str_shape_def str_tuple_body)

lemma shape_body_plain: "CHR '')'' \<notin> set (tuple_body (map str_nat s))"
  using str_nat_plain by (intro tuple_body_no_paren) auto

lemma shape_body_inj:
  assumes "tuple_body (map str_nat s) = tuple_body (map str_nat t)"
  shows "s = t"
proof -
  have "\<forall>u \<in> set (map str_nat s). CHR '','' \<notin> set u"
    "\<forall>u \<in> set (map str_nat t). CHR '','' \<notin> set u"
    using str_nat_plain by auto
  from tuple_body_inj [OF this assms] have "map str_nat s = map str_nat t" .
  moreover have "inj str_nat" by (rule injI) (rule str_nat_inj)
  ultimately show ?thesis by (rule map_injective)
qed

lemma shape_msg_inj:
  assumes "shape_msg xs ys zs = shape_msg xs' ys' zs'"
  shows "xs = xs' \<and> ys = ys' \<and> zs = zs'"
proof -
  let ?b = "\<lambda>s. tuple_body (map str_nat s)"
  from assms have e1: "?b xs @ CHR '')'' # ('', ('' @ ?b ys @ CHR '')'' # ('', ('' @ ?b zs @ ''))''))
      = ?b xs' @ CHR '')'' # ('', ('' @ ?b ys' @ CHR '')'' # ('', ('' @ ?b zs' @ ''))''))"
    by (simp add: shape_msg_def str_tuple_def str_shape_body)
  from split_at_first [OF shape_body_plain shape_body_plain e1]
  have x: "?b xs = ?b xs'"
    and e2: "?b ys @ CHR '')'' # ('', ('' @ ?b zs @ ''))'')
      = ?b ys' @ CHR '')'' # ('', ('' @ ?b zs' @ ''))'')" by simp_all
  from split_at_first [OF shape_body_plain shape_body_plain e2]
  have y: "?b ys = ?b ys'" and z: "?b zs = ?b zs'" by simp_all
  from x y z show ?thesis by (simp add: shape_body_inj)
qed

subsection \<open>Shape validation\<close>

text \<open>
  Claim C2. Both constructors compare the shapes of the three cast operands. When the
  shapes are not all the same, construction fails with the shape-mismatch error, no
  instance is returned, and the message holds the three shapes: they can be read
  back from it. When the three shapes are the same, construction succeeds.
\<close>

theorem shape_validation:
  assumes "expr_shape (cast_to_const x) = xs" "expr_shape (cast_to_const y) = ys"
    "expr_shape (cast_to_const z) = zs"
  shows "(\<not> (xs = ys \<and> xs = zs) \<longrightarrow>
            ExpCone_init x y z cid = Inl (ValueError (shape_msg xs ys zs))
          \<and> RelEntrQuad_init x y z m k cid = Inl (ValueError (shape_msg xs ys zs))
          \<and> (\<forall>xs' ys' zs'. shape_msg xs' ys' zs' = shape_msg xs ys zs
                \<longrightarrow> xs' = xs \<and> ys' = ys \<and> zs' = zs))
       \<and> (xs = ys \<and> xs = zs \<longrightarrow>
            (\<exists>c. ExpCone_init x y z cid = Inr c) \<and> (\<exists>q. RelEntrQuad_init x y z m k cid = Inr q))"
proof (intro conjI impI allI)
  assume ne: "\<not> (xs = ys \<and> xs = zs)"
  with assms init_mismatch [of x y z]
  show "ExpCone_init x y z cid = Inl (ValueError (shape_msg xs ys zs))"
    and "RelEntrQuad_init x y z m k cid = Inl (ValueError (shape_msg xs ys zs))"
    by simp_all
next
  fix xs' ys' zs'
  assume "shape_msg xs' ys' zs' = shape_msg xs ys zs"
  from shape_msg_inj [OF this] show "xs' = xs" "ys' = ys" "zs' = zs" by simp_all
next
  assume "xs = ys \<and> xs = zs"
  with assms have sh: "expr_shape (cast_to_const x) = xs" "expr_shape (cast_to_const y) = xs"
    "expr_shape (cast_to_const z) = xs" by auto
  show "\<exists>c. ExpCone_init x y z cid = Inr c"
    by (simp add: ExpCone_init_same_shape [OF sh])
  show "\<exists>q. RelEntrQuad_init x y z m k cid = Inr q"
    by (simp add: RelEntrQuad_init_same_shape [OF sh])
qed

theorem shape_validation_witness:
  "ExpCone_init (Expr (Variable [2])) (Raw \<lparr>nshape = [3], ndata = [1, 2, 3]\<rparr>) (Expr (Variable [2]))
       None =
     Inl (ValueError
       ''All arguments must have the same shapes. Provided arguments haveshapes ((2,), (3,), (2,))'')
   \<and> RelEntrQuad_init (Expr (Variable [2])) (Raw \<lparr>nshape = [3], ndata = [1, 2, 3]\<rparr>)
       (Expr (Variable [2])) 3 4 None =
     Inl (ValueError
       ''All arguments must have the same shapes. Provided arguments haveshapes ((2,), (3,), (2,))'')
   \<and> (\<exists>c. ExpCone_init (Expr (Variable [2, 12])) (Expr (Variable [2, 12]))
            (Expr (Variable [2, 12])) None = Inr c)
   \<and> (\<exists>q. RelEntrQuad_init (Expr (Variable [2, 12])) (Expr (Variable [2, 12]))
            (Expr (Variable [2, 12])) 3 4 None = Inr q)"
  using
    shape_validation [of "Expr (Variable [2])" "[2]" "Raw \<lparr>nshape = [3], ndata = [1, 2, 3]\<rparr>" "[3]"
      "Expr (Variable [2])" "[2]" None 3 4]
    shape_validation [of "Expr (Variable [2, 12])" "[2, 12]" "Expr (Variable [2, 12])" "[2, 12]"
      "Expr (Variable [2, 12])" "[2, 12]" None 3 4]
  by (simp add: Variable_def shape_msg_def str_shape_def str_tuple_def str_nat.simps
      digit_char_def)

subsection \<open>Conversion to the quadrature variant\<close>

lemma as_quad_approx_Inr:
  assumes "ExpCone_init x y z cid = Inr c"
  shows "ExpCone_as_quad_approx c m k =
    Inr \<lparr>args = [ec_y c, ec_z c, NegExpression (ec_x c)],
         dual_variables = new_dual_variables [ec_y c, ec_z c, NegExpression (ec_x c)],
         constr_id = None,
         rq_x = ec_y c, rq_y = ec_z c, rq_z = NegExpression (ec_x c), rq_m = m, rq_k = k\<rparr>"
  using ExpCone_init_Inr [OF assms]
  by (simp add: ExpCone_as_quad_approx_def RelEntrQuad_init_def Let_def)

text \<open>
  Claim C5. For an ExpCone built from operands \<open>x\<close>, \<open>y\<close>, \<open>z\<close> and any \<open>m\<close>, \<open>k\<close>,
  \<open>as_quad_approx\<close> returns a RelEntrQuad whose operands are, in this order, the
  cone's \<open>y\<close>, the cone's \<open>z\<close> and the negation of the cone's \<open>x\<close>, and which carries
  \<open>m\<close> and \<open>k\<close>.
\<close>

theorem as_quad_approx_operands:
  assumes "ExpCone_init x y z cid = Inr c"
  shows "\<exists>q. ExpCone_as_quad_approx c m k = Inr q
           \<and> rq_x q = cast_to_const y \<and> rq_y q = cast_to_const z
           \<and> rq_z q = NegExpression (cast_to_const x)
           \<and> args q = [ec_y c, ec_z c, NegExpression (ec_x c)]
           \<and> rq_m q = m \<and> rq_k q = k"
proof -
  from ExpCone_init_Inr(3) [OF assms]
  have "ec_x c = cast_to_const x" "ec_y c = cast_to_const y" "ec_z c = cast_to_const z"
    by simp_all
  then show ?thesis
    unfolding as_quad_approx_Inr [OF assms] by simp
qed

theorem as_quad_approx_operands_witness:
  "\<exists>q. ExpCone_as_quad_approx
          \<lparr>args = [Variable [2], Constant \<lparr>nshape = [2], ndata = [5, 6]\<rparr>, Variable [2]],
           dual_variables = new_dual_variables
             [Variable [2], Constant \<lparr>nshape = [2], ndata = [5, 6]\<rparr>, Variable [2]],
           constr_id = Some 7,
           ec_x = Variable [2], ec_y = Constant \<lparr>nshape = [2], ndata = [5, 6]\<rparr>,
           ec_z = Variable [2]\<rparr> 3 4 = Inr q
      \<and> rq_x q = Constant \<lparr>nshape = [2], ndata = [5, 6]\<rparr> \<and> rq_y q = Variable [2]
      \<and> rq_z q = NegExpression (Variable [2])
      \<and> args q = [Constant \<lparr>nshape = [2], ndata = [5, 6]\<rparr>, Variable [2],
                   NegExpression (Variable [2])]
      \<and> rq_m q = 3 \<and> rq_k q = 4"
  using as_quad_approx_operands [of "Expr (Variable [2])" "Raw \<lparr>nshape = [2], ndata = [5, 6]\<rparr>"
      "Expr (Variable [2])" "Some 7" _ 3 4]
  by (simp add: ExpCone_init_def Variable_def Let_def)

text \<open>
  Claim C6. For an ExpCone and any integers \<open>m\<close> and \<open>k\<close>, positive ones among them,
  \<open>get_data\<close> of \<open>as_quad_approx(m, k)\<close> is the two parameters as they were given,
  \<open>m\<close> first.
\<close>

theorem as_quad_approx_get_data:
  assumes "ExpCone_init x y z cid = Inr c"
  shows "\<exists>q. ExpCone_as_quad_approx c m k = Inr q \<and> RelEntrQuad_get_data q = [m, k]"
  by (simp add: as_quad_approx_Inr [OF assms] RelEntrQuad_get_data_def)

theorem as_quad_approx_get_data_witness:
  "\<exists>q. ExpCone_as_quad_approx
          \<lparr>args = [Variable [2], Variable [2], Variable [2]],
           dual_variables = new_dual_variables [Variable [2], Variable [2], Variable [2]],
           constr_id = None,
           ec_x = Variable [2], ec_y = Variable [2], ec_z = Variable [2]\<rparr> 3 4 = Inr q
      \<and> RelEntrQuad_get_data q = [3, 4]"
  using as_quad_approx_get_data [of "Expr (Variable [2])" "Expr (Variable [2])"
      "Expr (Variable [2])" None _ 3 4]
  by (simp add: ExpCone_init_def Variable_def Let_def)

text \<open>
  Claim C10, as the code has it. Neither \<open>as_quad_approx\<close> nor the constructor of
  RelEntrQuad looks at \<open>m\<close> and \<open>k\<close>: for all integers \<open>m\<close> and \<open>k\<close>, positive or
  not, construction succeeds exactly when the three operand shapes are the same, and
  the instance holds \<open>m\<close> and \<open>k\<close> as given; \<open>as_quad_approx\<close> of a constructed
  ExpCone succeeds for all \<open>m\<close> and \<open>k\<close>.
\<close>

theorem quad_parameters_unchecked:
  "((\<exists>q. RelEntrQuad_init x y z m k cid = Inr q \<and> rq_m q = m \<and> rq_k q = k)
      \<longleftrightarrow> expr_shape (cast_to_const x) = expr_shape (cast_to_const y)
          \<and> expr_shape (cast_to_const x) = expr_shape (cast_to_const z))
   \<and> (ExpCone_init x y z cid = Inr c \<longrightarrow>
        (\<exists>q. ExpCone_as_quad_approx c m k = Inr q \<and> rq_m q = m \<and> rq_k q = k))"
proof (intro conjI impI)
  show "(\<exists>q. RelEntrQuad_init x y z m k cid = Inr q \<and> rq_m q = m \<and> rq_k q = k)
      \<longleftrightarrow> expr_shape (cast_to_const x) = expr_shape (cast_to_const y)
          \<and> expr_shape (cast_to_const x) = expr_shape (cast_to_const z)"
    by (auto simp: RelEntrQuad_init_def Let_def)
next
  assume "ExpCone_init x y z cid = Inr c"
  then show "\<exists>q. ExpCone_as_quad_approx c m k = Inr q \<and> rq_m q = m \<and> rq_k q = k"
    by (simp add: as_quad_approx_Inr)
qed

theorem quad_parameters_unchecked_witness:
  "(\<exists>q. RelEntrQuad_init (Expr (Variable [2])) (Expr (Variable [2])) (Expr (Variable [2]))
           0 (- 1) None = Inr q \<and> rq_m q = 0 \<and> rq_k q = - 1)
   \<and> (\<exists>q. ExpCone_as_quad_approx
           \<lparr>args = [Variable [2], Variable [2], Variable [2]],
            dual_variables = new_dual_variables [Variable [2], Variable [2], Variable [2]],
            constr_id = None,
            ec_x = Variable [2], ec_y = Variable [2], ec_z = Variable [2]\<rparr> (- 3) 0 = Inr q
         \<and> rq_m q = - 3 \<and> rq_k q = 0)"
  using quad_parameters_unchecked [of "Expr (Variable [2])" "Expr (Variable [2])"
      "Expr (Variable [2])" 0 "- 1" None]
    quad_parameters_unchecked [of "Expr (Variable [2])" "Expr (Variable [2])"
      "Expr (Variable [2])" "- 3" 0 None]
  by (simp add: ExpCone_init_def Variable_def Let_def)

theorem quad_parameters_counterexample:
  "\<not> (0 < (0::int) \<and> 0 < (- 1::int))
   \<and> RelEntrQuad_init (Expr (Variable [2])) (Expr (Variable [2])) (Expr (Variable [2]))
       0 (- 1) None =
     Inr \<lparr>args = [Variable [2], Variable [2], Variable [2]],
          dual_variables =
            [\<lparr>var_shape = [2], var_value = None\<rparr>, \<lparr>var_shape = [2], var_value = None\<rparr>,
             \<lparr>var_shape = [2], var_value = None\<rparr>],
          constr_id = None,
          rq_x = Variable [2], rq_y = Variable [2], rq_z = Variable [2],
          rq_m = 0, rq_k = - 1\<rparr>
   \<and> ExpCone_as_quad_approx
       \<lparr>args = [Variable [2], Variable [2], Variable [2]],
        dual_variables =
          [\<lparr>var_shape = [2], var_value = None\<rparr>, \<lparr>var_shape = [2], var_value = None\<rparr>,
           \<lparr>var_shape = [2], var_value = None\<rparr>],
        constr_id = None,
        ec_x = Variable [2], ec_y = Variable [2], ec_z = Variable [2]\<rparr> 0 (- 1) =
     Inr \<lparr>args = [Variable [2], Variable [2], NegExpression (Variable [2])],
          dual_variables =
            [\<lparr>var_shape = [2], var_value = None\<rparr>, \<lparr>var_shape = [2], var_value = None\<rparr>,
             \<lparr>var_shape = [2], var_value = None\<rparr>],
          constr_id = None,
          rq_x = Variable [2], rq_y = Variable [2], rq_z = NegExpression (Variable [2]),
          rq_m = 0, rq_k = - 1\<rparr>"
  by (simp add: RelEntrQuad_init_def ExpCone_as_quad_approx_def Variable_def Let_def
      new_dual_variables_def)

subsection \<open>Convexity certification\<close>

text \<open>
  Claim C7. For a constructed cone of either variant, \<open>is_dcp\<close> is true exactly when
  each of the three operands is affine. With the flag \<open>dpp\<close> set, the same check runs
  with the restricted scope active and the scope is put back afterwards; without it,
  the check runs in the scope as it is. Two cones of the two variants over the same
  operands get the same answer.
\<close>

theorem is_dcp_all_affine:
  assumes "ExpCone_init x y z cid = Inr c" and "RelEntrQuad_init x' y' z' m k cid' = Inr q"
  shows "ExpCone_is_dcp c dpp active =
           (is_affine (dpp \<or> active) (ec_x c) \<and> is_affine (dpp \<or> active) (ec_y c)
              \<and> is_affine (dpp \<or> active) (ec_z c), active)
       \<and> RelEntrQuad_is_dcp q dpp active =
           (is_affine (dpp \<or> active) (rq_x q) \<and> is_affine (dpp \<or> active) (rq_y q)
              \<and> is_affine (dpp \<or> active) (rq_z q), active)
       \<and> (args q = args c \<longrightarrow> RelEntrQuad_is_dcp q dpp active = ExpCone_is_dcp c dpp active)"
  using ExpCone_init_Inr(3) [OF assms(1)] RelEntrQuad_init_Inr(3) [OF assms(2)]
  by (simp add: ExpCone_is_dcp_def RelEntrQuad_is_dcp_def dpp_scope_def)

theorem is_dcp_all_affine_witness:
  "ExpCone_is_dcp
      \<lparr>args = [Variable [2], Atom [2] None False True, NegExpression (Variable [2])],
       dual_variables = new_dual_variables
         [Variable [2], Atom [2] None False True, NegExpression (Variable [2])],
       constr_id = None,
       ec_x = Variable [2], ec_y = Atom [2] None False True,
       ec_z = NegExpression (Variable [2])\<rparr> True False = (True, False)
   \<and> ExpCone_is_dcp
      \<lparr>args = [Variable [2], Atom [2] None False True, NegExpression (Variable [2])],
       dual_variables = new_dual_variables
         [Variable [2], Atom [2] None False True, NegExpression (Variable [2])],
       constr_id = None,
       ec_x = Variable [2], ec_y = Atom [2] None False True,
       ec_z = NegExpression (Variable [2])\<rparr> False False = (False, False)
   \<and> RelEntrQuad_is_dcp
      \<lparr>args = [Variable [2], Atom [2] None False True, NegExpression (Variable [2])],
       dual_variables = new_dual_variables
         [Variable [2], Atom [2] None False True, NegExpression (Variable [2])],
       constr_id = None,
       rq_x = Variable [2], rq_y = Atom [2] None False True,
       rq_z = NegExpression (Variable [2]), rq_m = 3, rq_k = 4\<rparr> True False = (True, False)
   \<and> RelEntrQuad_is_dcp
      \<lparr>args = [Variable [2], Atom [2] None False True, NegExpression (Variable [2])],
       dual_variables = new_dual_variables
         [Variable [2], Atom [2] None False True, NegExpression (Variable [2])],
       constr_id = None,
       rq_x = Variable [2], rq_y = Atom [2] None False True,
       rq_z = NegExpression (Variable [2]), rq_m = 3, rq_k = 4\<rparr> False False = (False, False)"
  using
    is_dcp_all_affine [of "Expr (Variable [2])" "Expr (Atom [2] None False True)"
      "Expr (NegExpression (Variable [2]))" None _ "Expr (Variable [2])"
      "Expr (Atom [2] None False True)" "Expr (NegExpression (Variable [2]))" 3 4 None _ True False]
    is_dcp_all_affine [of "Expr (Variable [2])" "Expr (Atom [2] None False True)"
      "Expr (NegExpression (Variable [2]))" None _ "Expr (Variable [2])"
      "Expr (Atom [2] None False True)" "Expr (NegExpression (Variable [2]))" 3 4 None _ False False]
  by (simp add: ExpCone_init_def RelEntrQuad_init_def Variable_def Let_def)

subsection \<open>Dual values of the quadrature variant\<close>

text \<open>
  Claim C8. \<open>save_dual_value\<close> of a RelEntrQuad does nothing: for every input it
  returns without a value and without an error, and the constraint, its dual
  variables included, is as it was.
\<close>

theorem RelEntrQuad_save_dual_value_noop:
  "RelEntrQuad_save_dual_value val q = (Inr (), q)
   \<and> dual_variables (snd (RelEntrQuad_save_dual_value val q)) = dual_variables q"
  by (simp add: RelEntrQuad_save_dual_value_def)

subsection \<open>Residual\<close>

lemma sum_case_map_sum:
  "(case r of Inl e \<Rightarrow> Inl e | Inr v \<Rightarrow> Inr (Some v)) = map_sum id Some r"
  by (cases r) simp_all

text \<open>
  Claim C9. For a constructed cone of either variant: when one of the three operands
  has no value, the residual is \<open>None\<close>, returned and not raised, whatever the solve
  would do; when all three have a value, the residual is what the nested projection
  solve gives for the problem over three fresh variables and a cone of the same
  variant.
\<close>

theorem residual_undefined_value:
  assumes "ExpCone_init x y z cid = Inr c" and "RelEntrQuad_init x' y' z' m k cid' = Inr q"
  shows "(expr_value (ec_x c) = None \<or> expr_value (ec_y c) = None \<or> expr_value (ec_z c) = None
            \<longrightarrow> ExpCone_residual solve c = Inr None)
       \<and> (\<not> (expr_value (ec_x c) = None \<or> expr_value (ec_y c) = None
                \<or> expr_value (ec_z c) = None) \<longrightarrow>
            (\<exists>con. ExpCone_init (Expr (Variable (expr_shape (ec_x c))))
                      (Expr (Variable (expr_shape (ec_y c))))
                      (Expr (Variable (expr_shape (ec_z c)))) None = Inr con
                \<and> ExpCone_residual solve c =
                    map_sum id Some
                      (solve \<lparr>objective = Minimize_norm2_diff
                                 [Variable (expr_shape (ec_x c)), Variable (expr_shape (ec_y c)),
                                  Variable (expr_shape (ec_z c))]
                                 [the (expr_value (ec_x c)), the (expr_value (ec_y c)),
                                  the (expr_value (ec_z c))],
                               constraints = [con]\<rparr>)))
       \<and> (expr_value (rq_x q) = None \<or> expr_value (rq_y q) = None \<or> expr_value (rq_z q) = None
            \<longrightarrow> RelEntrQuad_residual solve' q = Inr None)
       \<and> (\<not> (expr_value (rq_x q) = None \<or> expr_value (rq_y q) = None
                \<or> expr_value (rq_z q) = None) \<longrightarrow>
            (\<exists>con. RelEntrQuad_init (Expr (Variable (expr_shape (rq_x q))))
                      (Expr (Variable (expr_shape (rq_y q))))
                      (Expr (Variable (expr_shape (rq_z q)))) (rq_m q) (rq_k q) None = Inr con
                \<and> RelEntrQuad_residual solve' q =
                    map_sum id Some
                      (solve' \<lparr>objective = Minimize_norm2_diff
                                 [Variable (expr_shape (rq_x q)), Variable (expr_shape (rq_y q)),
                                  Variable (expr_shape (rq_z q))]
                                 [the (expr_value (rq_x q)), the (expr_value (rq_y q)),
                                  the (expr_value (rq_z q))],
                               constraints = [con]\<rparr>)))"
proof (intro conjI impI)
  assume "expr_value (ec_x c) = None \<or> expr_value (ec_y c) = None \<or> expr_value (ec_z c) = None"
  then show "ExpCone_residual solve c = Inr None"
    by (simp add: ExpCone_residual_def)
next
  assume v: "\<not> (expr_value (ec_x c) = None \<or> expr_value (ec_y c) = None
                \<or> expr_value (ec_z c) = None)"
  have sh: "expr_shape (cast_to_const (Expr (Variable (expr_shape (ec_x c))))) = expr_shape (ec_x c)"
    "expr_shape (cast_to_const (Expr (Variable (expr_shape (ec_y c))))) = expr_shape (ec_x c)"
    "expr_shape (cast_to_const (Expr (Variable (expr_shape (ec_z c))))) = expr_shape (ec_x c)"
    using ExpCone_init_Inr [OF assms(1)] by (simp_all add: Variable_def)
  show "\<exists>con. ExpCone_init (Expr (Variable (expr_shape (ec_x c))))
                      (Expr (Variable (expr_shape (ec_y c))))
                      (Expr (Variable (expr_shape (ec_z c)))) None = Inr con
                \<and> ExpCone_residual solve c =
                    map_sum id Some
                      (solve \<lparr>objective = Minimize_norm2_diff
                                 [Variable (expr_shape (ec_x c)), Variable (expr_shape (ec_y c)),
                                  Variable (expr_shape (ec_z c))]
                                 [the (expr_value (ec_x c)), the (expr_value (ec_y c)),
                                  the (expr_value (ec_z c))],
                               constraints = [con]\<rparr>)"
    using v
    by (simp add: ExpCone_residual_def Let_def ExpCone_init_same_shape [OF sh] sum_case_map_sum
        del: not_None_eq)
next
  assume "expr_value (rq_x q) = None \<or> expr_value (rq_y q) = None \<or> expr_value (rq_z q) = None"
  then show "RelEntrQuad_residual solve' q = Inr None"
    by (simp add: RelEntrQuad_residual_def)
next
  assume v: "\<not> (expr_value (rq_x q) = None \<or> expr_value (rq_y q) = None
                \<or> expr_value (rq_z q) = None)"
  have sh: "expr_shape (cast_to_const (Expr (Variable (expr_shape (rq_x q))))) = expr_shape (rq_x q)"
    "expr_shape (cast_to_const (Expr (Variable (expr_shape (rq_y q))))) = expr_shape (rq_x q)"
    "expr_shape (cast_to_const (Expr (Variable (expr_shape (rq_z q))))) = expr_shape (rq_x q)"
    using RelEntrQuad_init_Inr [OF assms(2)] by (simp_all add: Variable_def)
  show "\<exists>con. RelEntrQuad_init (Expr (Variable (expr_shape (rq_x q))))
                      (Expr (Variable (expr_shape (rq_y q))))
                      (Expr (Variable (expr_shape (rq_z q)))) (rq_m q) (rq_k q) None = Inr con
                \<and> RelEntrQuad_residual solve' q =
                    map_sum id Some
                      (solve' \<lparr>objective = Minimize_norm2_diff
                                 [Variable (expr_shape (rq_x q)), Variable (expr_shape (rq_y q)),
                                  Variable (expr_shape (rq_z q))]
                                 [the (expr_value (rq_x q)), the (expr_value (rq_y q)),
                                  the (expr_value (rq_z q))],
                               constraints = [con]\<rparr>)"
    using v
    by (simp add: RelEntrQuad_residual_def Let_def RelEntrQuad_init_same_shape [OF sh]
        sum_case_map_sum del: not_None_eq)
qed

theorem residual_undefined_value_witness:
  "ExpCone_residual (\<lambda>p. Inr (real (length (constraints p))))
      \<lparr>args = [Variable [2], Constant \<lparr>nshape = [2], ndata = [5, 6]\<rparr>, Variable [2]],
       dual_variables = new_dual_variables
         [Variable [2], Constant \<lparr>nshape = [2], ndata = [5, 6]\<rparr>, Variable [2]],
       constr_id = None,
       ec_x = Variable [2], ec_y = Constant \<lparr>nshape = [2], ndata = [5, 6]\<rparr>,
       ec_z = Variable [2]\<rparr> = Inr None
   \<and> RelEntrQuad_residual (\<lambda>p. Inr (real (length (constraints p))))
      \<lparr>args = [Variable [2], Constant \<lparr>nshape = [2], ndata = [5, 6]\<rparr>, Variable [2]],
       dual_variables = new_dual_variables
         [Variable [2], Constant \<lparr>nshape = [2], ndata = [5, 6]\<rparr>, Variable [2]],
       constr_id = None,
       rq_x = Variable [2], rq_y = Constant \<lparr>nshape = [2], ndata = [5, 6]\<rparr>,
       rq_z = Variable [2], rq_m = 3, rq_k = 4\<rparr> = Inr None
   \<and> ExpCone_residual (\<lambda>p. Inr (real (length (constraints p))))
      \<lparr>args = [Constant \<lparr>nshape = [1], ndata = [0]\<rparr>, Constant \<lparr>nshape = [1], ndata = [1]\<rparr>,
               Constant \<lparr>nshape = [1], ndata = [2]\<rparr>],
       dual_variables = new_dual_variables
         [Constant \<lparr>nshape = [1], ndata = [0]\<rparr>, Constant \<lparr>nshape = [1], ndata = [1]\<rparr>,
          Constant \<lparr>nshape = [1], ndata = [2]\<rparr>],
       constr_id = None,
       ec_x = Constant \<lparr>nshape = [1], ndata = [0]\<rparr>, ec_y = Constant \<lparr>nshape = [1], ndata = [1]\<rparr>,
       ec_z = Constant \<lparr>nshape = [1], ndata = [2]\<rparr>\<rparr> = Inr (Some 1)
   \<and> RelEntrQuad_residual (\<lambda>p. Inr (real (length (constraints p))))
      \<lparr>args = [Constant \<lparr>nshape = [1], ndata = [0]\<rparr>, Constant \<lparr>nshape = [1], ndata = [1]\<rparr>,
               Constant \<lparr>nshape = [1], ndata = [2]\<rparr>],
       dual_variables = new_dual_variables
         [Constant \<lparr>nshape = [1], ndata = [0]\<rparr>, Constant \<lparr>nshape = [1], ndata = [1]\<rparr>,
          Constant \<lparr>nshape = [1], ndata = [2]\<rparr>],
       constr_id = None,
       rq_x = Constant \<lparr>nshape = [1], ndata = [0]\<rparr>, rq_y = Constant \<lparr>nshape = [1], ndata = [1]\<rparr>,
       rq_z = Constant \<lparr>nshape = [1], ndata = [2]\<rparr>, rq_m = 3, rq_k = 4\<rparr> = Inr (Some 1)"
  using
    residual_undefined_value [of "Expr (Variable [2])" "Raw \<lparr>nshape = [2], ndata = [5, 6]\<rparr>"
      "Expr (Variable [2])" None _ "Expr (Variable [2])" "Raw \<lparr>nshape = [2], ndata = [5, 6]\<rparr>"
      "Expr (Variable [2])" 3 4 None _
      "\<lambda>p. Inr (real (length (constraints p)))" "\<lambda>p. Inr (real (length (constraints p)))"]
    residual_undefined_value [of "Raw \<lparr>nshape = [1], ndata = [0]\<rparr>" "Raw \<lparr>nshape = [1], ndata = [1]\<rparr>"
      "Raw \<lparr>nshape = [1], ndata = [2]\<rparr>" None _ "Raw \<lparr>nshape = [1], ndata = [0]\<rparr>"
      "Raw \<lparr>nshape = [1], ndata = [1]\<rparr>" "Raw \<lparr>nshape = [1], ndata = [2]\<rparr>" 3 4 None _
      "\<lambda>p. Inr (real (length (constraints p)))" "\<lambda>p. Inr (real (length (constraints p)))"]
  by (simp add: ExpCone_init_def RelEntrQuad_init_def Variable_def Let_def)

subsection \<open>Recovery of the dual values\<close>

lemma np_reshape_rows3:
  "np_reshape (vector v) [- 1, 3] =
     (if length v mod 3 = 0 then Inr \<lparr>nshape = [length v div 3, 3], ndata = v\<rparr>
      else Inl (ReshapeError (length v) [- 1, 3]))"
proof -
  have "int (length v) mod 3 = int (length v mod 3)" by (simp add: zmod_int)
  moreover have "nat (int (length v) div 3) = length v div 3" by (simp add: zdiv_int [symmetric])
  ultimately show ?thesis
    by (simp add: np_reshape_def vector_def)
qed

lemma np_column_3:
  "j < 3 \<Longrightarrow> np_column \<lparr>nshape = [r, 3], ndata = v\<rparr> j =
     Inr \<lparr>nshape = [r], ndata = map (\<lambda>i. v ! (i * 3 + j)) [0..<r]\<rparr>"
  by (simp add: np_column_def)

lemma prod_list_map_int: "prod_list (map int S) = int (prod_list S)"
  by (induction S) simp_all

lemma filter_map_int: "filter (\<lambda>d. d \<noteq> - 1) (map int S) = map int S"
  by (induction S) simp_all

lemma count_list_map_int: "count_list (map int S) (- 1) = 0"
  by (induction S) simp_all

lemma np_reshape_nat_shape:
  "np_reshape a (map int S) =
     (if prod_list S = length (ndata a) then Inr \<lparr>nshape = S, ndata = ndata a\<rparr>
      else Inl (ReshapeError (length (ndata a)) (map int S)))"
proof -
  have "- 1 \<notin> set (map int S)" by auto
  moreover have "\<not> (\<exists>d \<in> set (map int S). d < - 1)" by auto
  moreover have "map nat (map int S) = S" by (simp add: comp_def)
  ultimately show ?thesis
    unfolding np_reshape_def Let_def filter_map_int count_list_map_int prod_list_map_int
    by (simp del: set_map)
qed

lemma save_dual_value_cases:
  assumes "ExpCone_init x y z cid = Inr c" and "expr_shape (ec_x c) = S"
  shows "ExpCone_save_dual_value (vector v) c =
     (if length v mod 3 \<noteq> 0 then (Inl (ReshapeError (length v) [- 1, 3]), c)
      else if prod_list S \<noteq> length v div 3
      then (Inl (ReshapeError (length v div 3) (map int S)), c)
      else (Inr (), c\<lparr>dual_variables :=
              [\<lparr>var_shape = S, var_value = Some \<lparr>nshape = S,
                   ndata = map (\<lambda>i. v ! (i * 3)) [0..<prod_list S]\<rparr>\<rparr>,
               \<lparr>var_shape = S, var_value = Some \<lparr>nshape = S,
                   ndata = map (\<lambda>i. v ! (i * 3 + 1)) [0..<prod_list S]\<rparr>\<rparr>,
               \<lparr>var_shape = S, var_value = Some \<lparr>nshape = S,
                   ndata = map (\<lambda>i. v ! (i * 3 + 2)) [0..<prod_list S]\<rparr>\<rparr>]\<rparr>))"
proof -
  note c = ExpCone_init_Inr [OF assms(1)]
  have sh: "expr_shape (cast_to_const x) = S" "expr_shape (cast_to_const y) = S"
    "expr_shape (cast_to_const z) = S"
    using c assms(2) by simp_all
  show ?thesis
    unfolding ExpCone_save_dual_value_def np_reshape_rows3
    by (subst c(3))+ (simp add: np_column_3 np_reshape_nat_shape sh save_dual_def save_value_def
        new_dual_variables_def c(3))
qed

lemma save_dual_value_ok:
  assumes "ExpCone_init x y z cid = Inr c" and "expr_shape (ec_x c) = S"
    and "length v = 3 * prod_list S"
  shows "ExpCone_save_dual_value (vector v) c =
     (Inr (), c\<lparr>dual_variables :=
        [\<lparr>var_shape = S, var_value = Some \<lparr>nshape = S,
             ndata = map (\<lambda>i. v ! (i * 3)) [0..<prod_list S]\<rparr>\<rparr>,
         \<lparr>var_shape = S, var_value = Some \<lparr>nshape = S,
             ndata = map (\<lambda>i. v ! (i * 3 + 1)) [0..<prod_list S]\<rparr>\<rparr>,
         \<lparr>var_shape = S, var_value = Some \<lparr>nshape = S,
             ndata = map (\<lambda>i. v ! (i * 3 + 2)) [0..<prod_list S]\<rparr>\<rparr>]\<rparr>)"
proof -
  from assms(3) have "\<not> length v mod 3 \<noteq> 0" "\<not> prod_list S \<noteq> length v div 3" by simp_all
  then show ?thesis
    by (simp only: save_dual_value_cases [OF assms(1,2)] if_False)
qed

lemma save_dual_value_err:
  assumes "ExpCone_init x y z cid = Inr c" and "expr_shape (ec_x c) = S"
    and "length v \<noteq> 3 * prod_list S"
  shows "\<exists>n s. ExpCone_save_dual_value (vector v) c = (Inl (ReshapeError n s), c)"
proof (cases "length v mod 3 = 0")
  case True
  with assms(3) have "prod_list S \<noteq> length v div 3" by auto
  with True show ?thesis
    by (simp only: save_dual_value_cases [OF assms(1,2)] simp_thms if_True if_False) blast
next
  case False
  then show ?thesis
    by (simp only: save_dual_value_cases [OF assms(1,2)] simp_thms if_True) blast
qed

lemma length_interleave3:
  "length xs = length ys \<Longrightarrow> length ys = length zs \<Longrightarrow>
     length (interleave3 xs ys zs) = 3 * length xs"
  by (induction xs ys zs rule: list_induct3) simp_all

lemma interleave3_nth:
  "length xs = length ys \<Longrightarrow> length ys = length zs \<Longrightarrow> i < length xs \<Longrightarrow>
     interleave3 xs ys zs ! (i * 3) = xs ! i
   \<and> interleave3 xs ys zs ! (i * 3 + 1) = ys ! i
   \<and> interleave3 xs ys zs ! (i * 3 + 2) = zs ! i"
proof (induction xs ys zs arbitrary: i rule: list_induct3)
  case Nil
  then show ?case by simp
next
  case (Cons a as b bs c cs)
  show ?case
  proof (cases i)
    case 0
    then show ?thesis by simp
  next
    case (Suc j)
    with Cons.prems have "j < length as" by simp
    from Cons.IH [OF this] Suc show ?thesis by simp
  qed
qed

lemma interleave3_columns:
  assumes "length xs = n" "length ys = n" "length zs = n"
  shows "map (\<lambda>i. interleave3 xs ys zs ! (i * 3)) [0..<n] = xs"
    and "map (\<lambda>i. interleave3 xs ys zs ! (i * 3 + 1)) [0..<n] = ys"
    and "map (\<lambda>i. interleave3 xs ys zs ! (i * 3 + 2)) [0..<n] = zs"
proof -
  have eq: "length xs = length ys" "length ys = length zs" using assms by simp_all
  show "map (\<lambda>i. interleave3 xs ys zs ! (i * 3)) [0..<n] = xs"
    using interleave3_nth [OF eq] assms by (intro nth_equalityI) simp_all
  show "map (\<lambda>i. interleave3 xs ys zs ! (i * 3 + 1)) [0..<n] = ys"
    using interleave3_nth [OF eq] assms by (intro nth_equalityI) simp_all
  show "map (\<lambda>i. interleave3 xs ys zs ! (i * 3 + 2)) [0..<n] = zs"
    using interleave3_nth [OF eq] assms by (intro nth_equalityI) simp_all
qed

text \<open>
  Claim C3. For an ExpCone over operands of shape \<open>S\<close> with \<open>n = prod_list S\<close>
  entries and a flat vector \<open>v\<close> of length \<open>3 * n\<close>, \<open>save_dual_value\<close> succeeds and
  writes into the three dual variables, in the order x, y, z, the three columns of
  \<open>v\<close> read as \<open>n\<close> rows of three, each of length \<open>n\<close> and with shape \<open>S\<close>; nothing
  else of the constraint changes. In particular the vector that interleaves three
  arrays \<open>xs\<close>, \<open>ys\<close>, \<open>zs\<close> of \<open>n\<close> entries gives back \<open>xs\<close>, \<open>ys\<close> and \<open>zs\<close> with
  shape \<open>S\<close>.
\<close>

theorem save_dual_value_recovers:
  assumes "ExpCone_init x y z cid = Inr c" and "expr_shape (ec_x c) = S"
  shows "(length v = 3 * prod_list S \<longrightarrow>
           ExpCone_save_dual_value (vector v) c =
             (Inr (), c\<lparr>dual_variables :=
                [\<lparr>var_shape = S, var_value = Some \<lparr>nshape = S,
                     ndata = map (\<lambda>i. v ! (i * 3)) [0..<prod_list S]\<rparr>\<rparr>,
                 \<lparr>var_shape = S, var_value = Some \<lparr>nshape = S,
                     ndata = map (\<lambda>i. v ! (i * 3 + 1)) [0..<prod_list S]\<rparr>\<rparr>,
                 \<lparr>var_shape = S, var_value = Some \<lparr>nshape = S,
                     ndata = map (\<lambda>i. v ! (i * 3 + 2)) [0..<prod_list S]\<rparr>\<rparr>]\<rparr>))
       \<and> (length xs = prod_list S \<and> length ys = prod_list S \<and> length zs = prod_list S \<longrightarrow>
           ExpCone_save_dual_value (vector (interleave3 xs ys zs)) c =
             (Inr (), c\<lparr>dual_variables :=
                [\<lparr>var_shape = S, var_value = Some \<lparr>nshape = S, ndata = xs\<rparr>\<rparr>,
                 \<lparr>var_shape = S, var_value = Some \<lparr>nshape = S, ndata = ys\<rparr>\<rparr>,
                 \<lparr>var_shape = S, var_value = Some \<lparr>nshape = S, ndata = zs\<rparr>\<rparr>]\<rparr>))"
proof (intro conjI impI)
  assume "length v = 3 * prod_list S"
  then show "ExpCone_save_dual_value (vector v) c =
             (Inr (), c\<lparr>dual_variables :=
                [\<lparr>var_shape = S, var_value = Some \<lparr>nshape = S,
                     ndata = map (\<lambda>i. v ! (i * 3)) [0..<prod_list S]\<rparr>\<rparr>,
                 \<lparr>var_shape = S, var_value = Some \<lparr>nshape = S,
                     ndata = map (\<lambda>i. v ! (i * 3 + 1)) [0..<prod_list S]\<rparr>\<rparr>,
                 \<lparr>var_shape = S, var_value = Some \<lparr>nshape = S,
                     ndata = map (\<lambda>i. v ! (i * 3 + 2)) [0..<prod_list S]\<rparr>\<rparr>]\<rparr>)"
    by (rule save_dual_value_ok [OF assms])
next
  assume len: "length xs = prod_list S \<and> length ys = prod_list S \<and> length zs = prod_list S"
  then have l: "length xs = prod_list S" "length ys = prod_list S" "length zs = prod_list S"
    by simp_all
  have "length (interleave3 xs ys zs) = 3 * prod_list S"
    using length_interleave3 [of xs ys zs] l by simp
  from save_dual_value_ok [OF assms this]
  show "ExpCone_save_dual_value (vector (interleave3 xs ys zs)) c =
             (Inr (), c\<lparr>dual_variables :=
                [\<lparr>var_shape = S, var_value = Some \<lparr>nshape = S, ndata = xs\<rparr>\<rparr>,
                 \<lparr>var_shape = S, var_value = Some \<lparr>nshape = S, ndata = ys\<rparr>\<rparr>,
                 \<lparr>var_shape = S, var_value = Some \<lparr>nshape = S, ndata = zs\<rparr>\<rparr>]\<rparr>)"
    by (simp only: interleave3_columns [OF l])
qed

theorem save_dual_value_recovers_witness:
  "ExpCone_save_dual_value (vector [10, 20, 30, 11, 21, 31])
      \<lparr>args = [Variable [1, 2], Variable [1, 2], Variable [1, 2]],
       dual_variables = new_dual_variables [Variable [1, 2], Variable [1, 2], Variable [1, 2]],
       constr_id = None,
       ec_x = Variable [1, 2], ec_y = Variable [1, 2], ec_z = Variable [1, 2]\<rparr> =
     (Inr (),
      \<lparr>args = [Variable [1, 2], Variable [1, 2], Variable [1, 2]],
       dual_variables =
         [\<lparr>var_shape = [1, 2], var_value = Some \<lparr>nshape = [1, 2], ndata = [10, 11]\<rparr>\<rparr>,
          \<lparr>var_shape = [1, 2], var_value = Some \<lparr>nshape = [1, 2], ndata = [20, 21]\<rparr>\<rparr>,
          \<lparr>var_shape = [1, 2], var_value = Some \<lparr>nshape = [1, 2], ndata = [30, 31]\<rparr>\<rparr>],
       constr_id = None,
       ec_x = Variable [1, 2], ec_y = Variable [1, 2], ec_z = Variable [1, 2]\<rparr>)
   \<and> ExpCone_save_dual_value (vector (interleave3 [10, 11] [20, 21] [30, 31]))
      \<lparr>args = [Variable [1, 2], Variable [1, 2], Variable [1, 2]],
       dual_variables = new_dual_variables [Variable [1, 2], Variable [1, 2], Variable [1, 2]],
       constr_id = None,
       ec_x = Variable [1, 2], ec_y = Variable [1, 2], ec_z = Variable [1, 2]\<rparr> =
     (Inr (),
      \<lparr>args = [Variable [1, 2], Variable [1, 2], Variable [1, 2]],
       dual_variables =
         [\<lparr>var_shape = [1, 2], var_value = Some \<lparr>nshape = [1, 2], ndata = [10, 11]\<rparr>\<rparr>,
          \<lparr>var_shape = [1, 2], var_value = Some \<lparr>nshape = [1, 2], ndata = [20, 21]\<rparr>\<rparr>,
          \<lparr>var_shape = [1, 2], var_value = Some \<lparr>nshape = [1, 2], ndata = [30, 31]\<rparr>\<rparr>],
       constr_id = None,
       ec_x = Variable [1, 2], ec_y = Variable [1, 2], ec_z = Variable [1, 2]\<rparr>)"
  using save_dual_value_recovers [of "Expr (Variable [1, 2])" "Expr (Variable [1, 2])"
      "Expr (Variable [1, 2])" None
      "\<lparr>args = [Variable [1, 2], Variable [1, 2], Variable [1, 2]],
        dual_variables = new_dual_variables [Variable [1, 2], Variable [1, 2], Variable [1, 2]],
        constr_id = None,
        ec_x = Variable [1, 2], ec_y = Variable [1, 2], ec_z = Variable [1, 2]\<rparr>"
      "[1, 2]" "[10, 20, 30, 11, 21, 31]" "[10, 11]" "[20, 21]" "[30, 31]"]
  by (simp add: ExpCone_init_def Variable_def Let_def upt_rec)

text \<open>
  Claim C4. For a constructed ExpCone and a flat vector \<open>v\<close>, \<open>save_dual_value\<close>
  raises a reshape error exactly when the length of \<open>v\<close> is not the size of the cone,
  and returns normally exactly when it is; when it raises, the constraint is as it
  was before the call, so no dual variable has been written.
\<close>

theorem save_dual_value_reshape_error:
  assumes "ExpCone_init x y z cid = Inr c"
  shows "((\<exists>n s. fst (ExpCone_save_dual_value (vector v) c) = Inl (ReshapeError n s))
            \<longleftrightarrow> length v \<noteq> ExpCone_size c)
       \<and> (fst (ExpCone_save_dual_value (vector v) c) = Inr () \<longleftrightarrow> length v = ExpCone_size c)
       \<and> (length v \<noteq> ExpCone_size c \<longrightarrow> snd (ExpCone_save_dual_value (vector v) c) = c)"
proof (cases "length v = 3 * prod_list (expr_shape (ec_x c))")
  case True
  from save_dual_value_ok [OF assms refl True] True show ?thesis
    by (simp add: ExpCone_size_def ExpCone_num_cones_def expr_size_def)
next
  case False
  from save_dual_value_err [OF assms refl False] False show ?thesis
    by (auto simp add: ExpCone_size_def ExpCone_num_cones_def expr_size_def)
qed

theorem save_dual_value_reshape_error_witness:
  "(\<exists>n s. fst (ExpCone_save_dual_value (vector [10, 20, 30, 11, 21])
      \<lparr>args = [Variable [1, 2], Variable [1, 2], Variable [1, 2]],
       dual_variables = new_dual_variables [Variable [1, 2], Variable [1, 2], Variable [1, 2]],
       constr_id = None,
       ec_x = Variable [1, 2], ec_y = Variable [1, 2], ec_z = Variable [1, 2]\<rparr>)
        = Inl (ReshapeError n s))
   \<and> snd (ExpCone_save_dual_value (vector [10, 20, 30, 11, 21])
      \<lparr>args = [Variable [1, 2], Variable [1, 2], Variable [1, 2]],
       dual_variables = new_dual_variables [Variable [1, 2], Variable [1, 2], Variable [1, 2]],
       constr_id = None,
       ec_x = Variable [1, 2], ec_y = Variable [1, 2], ec_z = Variable [1, 2]\<rparr>) =
      \<lparr>args = [Variable [1, 2], Variable [1, 2], Variable [1, 2]],
       dual_variables = new_dual_variables [Variable [1, 2], Variable [1, 2], Variable [1, 2]],
       constr_id = None,
       ec_x = Variable [1, 2], ec_y = Variable [1, 2], ec_z = Variable [1, 2]\<rparr>
   \<and> fst (ExpCone_save_dual_value (vector [10, 20, 30, 11, 21, 31])
      \<lparr>args = [Variable [1, 2], Variable [1, 2], Variable [1, 2]],
       dual_variables = new_dual_variables [Variable [1, 2], Variable [1, 2], Variable [1, 2]],
       constr_id = None,
       ec_x = Variable [1, 2], ec_y = Variable [1, 2], ec_z = Variable [1, 2]\<rparr>) = Inr ()"
  using
    save_dual_value_reshape_error [of "Expr (Variable [1, 2])" "Expr (Variable [1, 2])"
      "Expr (Variable [1, 2])" None
      "\<lparr>args = [Variable [1, 2], Variable [1, 2], Variable [1, 2]],
        dual_variables = new_dual_variables [Variable [1, 2], Variable [1, 2], Variable [1, 2]],
        constr_id = None,
        ec_x = Variable [1, 2], ec_y = Variable [1, 2], ec_z = Variable [1, 2]\<rparr>"
      "[10, 20, 30, 11, 21]"]
    save_dual_value_reshape_error [of "Expr (Variable [1, 2])" "Expr (Variable [1, 2])"
      "Expr (Variable [1, 2])" None
      "\<lparr>args = [Variable [1, 2], Variable [1, 2], Variable [1, 2]],
        dual_variables = new_dual_variables [Variable [1, 2], Variable [1, 2], Variable [1, 2]],
        constr_id = None,
        ec_x = Variable [1, 2], ec_y = Variable [1, 2], ec_z = Variable [1, 2]\<rparr>"
      "[10, 20, 30, 11, 21, 31]"]
  by (simp add: ExpCone_init_def Variable_def Let_def ExpCone_size_def ExpCone_num_cones_def
      expr_size_def)

end
